theory Spec2Isabelle
  imports Complex_Main
begin

section \<open>Longitudinal phase-space utilities of BLonD (trackers/utilities.py)\<close>

text \<open>
  The source computes with IEEE double precision numbers (numpy arrays). The embedding
  below computes with exact real numbers: every arithmetic operation of the source is the
  same operation on \<^typ>\<open>real\<close>, and the places where the source leaves the finite
  numbers (a division by zero, the square root of a negative number) are explicit
  branches of the model. Rounding is not modelled. A result of the source therefore
  agrees with the model up to rounding error only, and where the model's value sits
  exactly on a threshold (the end of a folding interval, a radicand equal to \<open>0\<close>) the
  source may be on either side of it. The properties below are stated away from such
  points, or at points where the source's arithmetic is exact.
\<close>

subsection \<open>Phase and time normalisation\<close>

text \<open>
  \<^verbatim>\<open>phase_modulo_above_transition(phi)\<close>:
  \<^verbatim>\<open>return phi - 2.*np.pi*np.floor(phi/(2.*np.pi))\<close>.
  The formula over the reals. In doubles the source differs from it at the ends of the
  interval \<open>[0, 2 * pi)\<close>: a tiny negative \<open>phi\<close> is mapped to the double \<open>2 * pi\<close>
  itself, and a second application maps that to \<open>0\<close>.
\<close>

definition phase_modulo_above_transition :: "real \<Rightarrow> real" where
  "phase_modulo_above_transition phi = phi - 2 * pi * real_of_int \<lfloor>phi / (2 * pi)\<rfloor>"

text \<open>
  \<^verbatim>\<open>phase_modulo_below_transition(phi)\<close>:
  \<^verbatim>\<open>return phi - 2.*np.pi*(np.floor(phi/(2.*np.pi) + 0.5))\<close>.
  The formula over the reals. In doubles the source differs from it at the ends of the
  interval \<open>[- pi, pi)\<close>: for the largest double below \<open>pi\<close> the sum inside the floor
  rounds to \<open>1\<close> and the result is just below \<open>- pi\<close>.
\<close>

definition phase_modulo_below_transition :: "real \<Rightarrow> real" where
  "phase_modulo_below_transition phi =
     phi - 2 * pi * real_of_int \<lfloor>phi / (2 * pi) + 1 / 2\<rfloor>"

text \<open>
  \<^verbatim>\<open>time_modulo(dt, dt_offset, T)\<close>:
  \<^verbatim>\<open>return dt - T*np.floor((dt + dt_offset)/T)\<close>.
  With \<open>T = 0\<close> the quotient is infinite or undefined and the source's result is not a
  finite number (NaN for numpy floats, a ZeroDivisionError for Python floats); the model
  returns \<open>None\<close> there. The formula over the reals otherwise. In doubles the source
  differs from it at the upper end of the interval: for a tiny negative \<open>dt + dt_offset\<close>
  the subtraction rounds to \<open>- dt_offset + T\<close> itself.
\<close>

definition time_modulo :: "real \<Rightarrow> real \<Rightarrow> real \<Rightarrow> real option" where
  "time_modulo dt dt_offset T =
     (if T = 0 then None
      else Some (dt - T * real_of_int \<lfloor>(dt + dt_offset) / T\<rfloor>))"


subsection \<open>Errors, diagnostics and numpy array arithmetic\<close>

text \<open>
  The exceptions of the source that the models below can reach. \<open>RuntimeError\<close> carries the
  first words of its message.
\<close>

datatype py_error = IndexError | ValueError | UnboundLocalError | RuntimeError string

text \<open>
  What a call writes besides its return value: \<^verbatim>\<open>print\<close> of an array, \<^verbatim>\<open>print\<close> of a
  text, and \<^verbatim>\<open>warnings.warn\<close>. A function that emits diagnostics returns the list of them,
  in order, next to its outcome, so that what was written before an exception is kept.
\<close>

datatype diagnostic = Printed_array "real list" | Printed string | Warned string

text \<open>
  Binary elementwise operation of two one-dimensional numpy arrays, with numpy's
  broadcasting: equal lengths, or one of the two of length one; every other pair of
  shapes raises a ValueError.
\<close>

definition np_binary ::
  "(real \<Rightarrow> real \<Rightarrow> real) \<Rightarrow> real list \<Rightarrow> real list \<Rightarrow> py_error + real list" where
  "np_binary f xs ys =
     (if length xs = length ys then Inr (map2 f xs ys)
      else if length xs = 1 then Inr (map (f (hd xs)) ys)
      else if length ys = 1 then Inr (map (\<lambda>x. f x (hd ys)) xs)
      else Inl ValueError)"

text \<open>
  In-place addition \<^verbatim>\<open>a += b\<close> of one-dimensional arrays: \<open>b\<close> must broadcast to the
  shape of \<open>a\<close>.
\<close>

definition np_iadd :: "real list \<Rightarrow> real list \<Rightarrow> py_error + real list" where
  "np_iadd xs ys =
     (if length ys = length xs then Inr (map2 (+) xs ys)
      else if length ys = 1 then Inr (map (\<lambda>x. x + hd ys) xs)
      else Inl ValueError)"

text \<open>Row \<open>0\<close> of a two-dimensional array, \<^verbatim>\<open>a[0]\<close>: an IndexError when there is no row.\<close>

definition row0 :: "real list list \<Rightarrow> py_error + real list" where
  "row0 a = (case a of [] \<Rightarrow> Inl IndexError | r # _ \<Rightarrow> Inr r)"

subsection \<open>Total voltage\<close>

text \<open>
  The two fields of an RF section (an \<^verbatim>\<open>RFSectionParameters\<close> object) that
  \<^verbatim>\<open>total_voltage\<close> reads: the voltage and RF phase programs, arrays of shape
  (harmonics, turns). The functions of this section take any extension of the record.
\<close>

record rf_section =
  voltage :: "real list list"
  phi_RF :: "real list list"

text \<open>
  \<^verbatim>\<open>RFsection.voltage[0]*np.cos(RFsection.phi_RF[0])\<close>, and the same with \<^verbatim>\<open>np.sin\<close>.
\<close>

definition first_component ::
  "(real \<Rightarrow> real) \<Rightarrow> 'a rf_section_scheme \<Rightarrow> py_error + real list" where
  "first_component f s =
     (case row0 (voltage s) of
        Inl e \<Rightarrow> Inl e
      | Inr v \<Rightarrow>
          (case row0 (phi_RF s) of
             Inl e \<Rightarrow> Inl e
           | Inr p \<Rightarrow> np_binary (*) v (map f p)))"

text \<open>
  The loop \<^verbatim>\<open>for i in range(1, n_sections)\<close> over the sections after the first: it prints
  the section's first-harmonic voltage and adds the section's components in place.
\<close>

fun add_sections ::
  "'a rf_section_scheme list \<Rightarrow> real list \<Rightarrow> real list \<Rightarrow> diagnostic list \<Rightarrow>
     diagnostic list \<times> (py_error + real list \<times> real list)" where
  "add_sections [] Vcos Vsin out = (out, Inr (Vcos, Vsin))"
| "add_sections (s # ss) Vcos Vsin out =
     (case row0 (voltage s) of
        Inl e \<Rightarrow> (out, Inl e)
      | Inr v \<Rightarrow>
          (case first_component cos s of
             Inl e \<Rightarrow> (out @ [Printed_array v], Inl e)
           | Inr c \<Rightarrow>
          (case np_iadd Vcos c of
             Inl e \<Rightarrow> (out @ [Printed_array v], Inl e)
           | Inr Vcos' \<Rightarrow>
          (case first_component sin s of
             Inl e \<Rightarrow> (out @ [Printed_array v], Inl e)
           | Inr sn \<Rightarrow>
          (case np_iadd Vsin sn of
             Inl e \<Rightarrow> (out @ [Printed_array v], Inl e)
           | Inr Vsin' \<Rightarrow> add_sections ss Vcos' Vsin' (out @ [Printed_array v]))))))"

text \<open>What \<^verbatim>\<open>total_voltage\<close> returns: an array, the integer \<open>0\<close>, or Python's \<open>None\<close>.\<close>

datatype tv_value = Array "real list" | Int_value int | None_value

text \<open>
  \<^verbatim>\<open>total_voltage(RFsection_list, harmonic = 'first')\<close>. The branch \<^verbatim>\<open>'all'\<close> is
  \<^verbatim>\<open>return 0\<close>; the last branch calls \<^verbatim>\<open>warnings.warn\<close> and falls off the end of the
  function, which returns \<open>None\<close>.
\<close>

definition total_voltage ::
  "'a rf_section_scheme list \<Rightarrow> string \<Rightarrow> diagnostic list \<times> (py_error + tv_value)" where
  "total_voltage RFsection_list harmonic =
     (if harmonic = ''first'' then
        (case RFsection_list of
           [] \<Rightarrow> ([], Inl IndexError)
         | s0 # rest \<Rightarrow>
             (case first_component cos s0 of
                Inl e \<Rightarrow> ([], Inl e)
              | Inr Vcos \<Rightarrow>
             (case first_component sin s0 of
                Inl e \<Rightarrow> ([], Inl e)
              | Inr Vsin \<Rightarrow>
             (case add_sections rest Vcos Vsin [] of
                (out, Inl e) \<Rightarrow> (out, Inl e)
              | (out, Inr (Vc, Vs)) \<Rightarrow>
                  (case np_binary (+) (map (\<lambda>x. x ^ 2) Vc) (map (\<lambda>x. x ^ 2) Vs) of
                     Inl e \<Rightarrow> (out, Inl e)
                   | Inr q \<Rightarrow> (out, Inr (Array (map sqrt q))))))))
      else if harmonic = ''all'' then ([], Inr (Int_value 0))
      else ([Warned ''WARNING: In total_voltage, harmonic choice not recognize!''],
            Inr None_value))"

text \<open>
  The quadrature combination as the specification words it, at turn \<open>j\<close>: the square root
  of the squared sum of the sections' cosine components plus the squared sum of their
  sine components.
\<close>

definition quadrature_first :: "'a rf_section_scheme list \<Rightarrow> nat \<Rightarrow> real" where
  "quadrature_first secs j =
     sqrt ((\<Sum>s\<leftarrow>secs. hd (voltage s) ! j * cos (hd (phi_RF s) ! j)) ^ 2
         + (\<Sum>s\<leftarrow>secs. hd (voltage s) ! j * sin (hd (phi_RF s) ! j)) ^ 2)"

text \<open>
  A list of sections is well shaped for \<open>n\<close> turns when every section has a first
  harmonic row of voltages and of phases, both of length \<open>n\<close>.
\<close>

definition well_shaped :: "nat \<Rightarrow> 'a rf_section_scheme \<Rightarrow> bool" where
  "well_shaped n s =
     (case (voltage s, phi_RF s) of
        (v # _, p # _) \<Rightarrow> length v = n \<and> length p = n
      | _ \<Rightarrow> False)"


subsection \<open>Indexing with Python's IndexError\<close>

definition bind_err :: "'e + 'a \<Rightarrow> ('a \<Rightarrow> 'e + 'b) \<Rightarrow> 'e + 'b" where
  "bind_err r f = (case r of Inl e \<Rightarrow> Inl e | Inr x \<Rightarrow> f x)"

text \<open>\<^verbatim>\<open>xs[i]\<close> for an index \<open>i \<ge> 0\<close>.\<close>

definition nth_err :: "'a list \<Rightarrow> nat \<Rightarrow> py_error + 'a" where
  "nth_err xs i = (if i < length xs then Inr (xs ! i) else Inl IndexError)"

text \<open>\<^verbatim>\<open>a[i, j]\<close> on a two-dimensional array, given as the list of its rows.\<close>

definition nth2 :: "'a list list \<Rightarrow> nat \<Rightarrow> nat \<Rightarrow> py_error + 'a" where
  "nth2 a i j = bind_err (nth_err a i) (\<lambda>r. nth_err r j)"

text \<open>\<^verbatim>\<open>a[:, j]\<close>: column \<open>j\<close> of a two-dimensional array.\<close>

definition column :: "'a list list \<Rightarrow> nat \<Rightarrow> py_error + 'a list" where
  "column a j =
     (if list_all (\<lambda>r. j < length r) a then Inr (map (\<lambda>r. r ! j) a) else Inl IndexError)"

subsection \<open>Ring, beam and RF parameters\<close>

text \<open>
  A numpy floating point result: a finite number, or one of the values \<open>inf\<close>, \<open>-inf\<close>
  and \<open>nan\<close> that a division by zero or the square root of a negative number produces.
\<close>

datatype npfloat = Finite real | Not_finite

text \<open>
  The fields of \<^verbatim>\<open>GeneralParameters\<close>, \<^verbatim>\<open>Beam\<close> and \<^verbatim>\<open>RFSectionParameters\<close> that the
  Hamiltonian and the separatrix read. \<^verbatim>\<open>Beam.beta\<close>, \<^verbatim>\<open>Beam.energy\<close> and
  \<^verbatim>\<open>GeneralParameters.charge\<close> carry a prefix, since the RF section has fields of the
  same names. \<^verbatim>\<open>RFSectionParameters.eta_tracking(Beam, counter, dE)\<close> is a method of a
  class defined outside of these sources; it is a field of the record here.
\<close>

record general_parameters =
  ring_circumference :: real
  ring_charge :: real

record beam =
  beam_beta :: real
  beam_energy :: real

record rf_section_parameters = rf_section +
  n_rf :: nat
  counter :: "nat list"
  harmonic :: "real list list"
  omega_RF :: "real list list"
  phi_s :: "real list"
  eta_0 :: "real list"
  beta :: "real list"
  energy :: "real list"
  charge :: real
  eta_tracking :: "beam \<Rightarrow> nat \<Rightarrow> real \<Rightarrow> real"

text \<open>\<^verbatim>\<open>scipy.constants.c\<close>, the speed of light in m/s.\<close>

definition c_light :: real where
  "c_light = 299792458"

subsection \<open>Hamiltonian\<close>

text \<open>
  \<^verbatim>\<open>hamiltonian(GeneralParameters, RFSectionParameters, Beam, dt, dE, total_voltage = None)\<close>
  at one point \<open>(dt, dE)\<close>. The two calls of \<^verbatim>\<open>warnings.warn\<close> do not influence the
  returned value and are left out. A time \<open>dt\<close> that is not finite, or a zero denominator
  in \<open>c1\<close> or \<open>c2\<close>, gives a value that is not finite.
\<close>

definition hamiltonian ::
  "general_parameters \<Rightarrow> rf_section_parameters \<Rightarrow> beam \<Rightarrow> npfloat \<Rightarrow> real \<Rightarrow>
     real list option \<Rightarrow> py_error + npfloat" where
  "hamiltonian GP RF Beam dt dE tot_voltage =
     bind_err (nth_err (counter RF) 0) (\<lambda>cnt.
     bind_err (nth2 (harmonic RF) 0 cnt) (\<lambda>h0.
     bind_err (case tot_voltage of
                 None \<Rightarrow> nth2 (voltage RF) 0 cnt
               | Some tv \<Rightarrow> nth_err tv cnt) (\<lambda>V.
     bind_err (nth_err (phi_s RF) cnt) (\<lambda>phis.
     bind_err (nth2 (omega_RF RF) 0 cnt) (\<lambda>w0.
     bind_err (nth2 (phi_RF RF) 0 cnt) (\<lambda>p0.
     bind_err (nth_err (eta_0 RF) cnt) (\<lambda>eta0.
       Inr (case dt of
              Not_finite \<Rightarrow> Not_finite
            | Finite t \<Rightarrow>
                let V0 = V * charge RF;
                    d1 = ring_circumference GP * beam_beta Beam * beam_energy Beam;
                    d2 = h0 * ring_circumference GP
                in if d1 = 0 \<or> d2 = 0 then Not_finite
                   else
                     let c1 = eta_tracking RF Beam cnt dE * c_light * pi / d1;
                         c2 = c_light * beam_beta Beam * V0 / d2;
                         phi_b0 = w0 * t + p0;
                         phi_b = (if eta0 < 0 then phase_modulo_below_transition phi_b0
                                  else if eta0 > 0 then phase_modulo_above_transition phi_b0
                                  else phi_b0)
                     in Finite (c1 * dE ^ 2
                          + c2 * (cos phi_b - cos phis + (phi_b - phis) * sin phis))))))))))"

subsection \<open>Separatrix\<close>

text \<open>
  What the model of \<^verbatim>\<open>separatrix\<close> returns: the value at the requested time, or the mark
  that the call took the multi-harmonic branch (the scan for the unstable fixed point,
  \<^verbatim>\<open>n_rf != 1\<close>), which this development does not cover.
\<close>

datatype separatrix_result = Value npfloat | Multi_harmonic

text \<open>
  \<^verbatim>\<open>separatrix(GeneralParameters, RFSectionParameters, dt, total_voltage = None)\<close> at one
  time \<open>dt\<close> (numpy applies every operation of the single-harmonic branch elementwise
  to an array of times). The time is first folded with \<open>time_modulo\<close>, into a window
  that depends on the sign of \<open>eta0\<close>; a zero \<open>omega_RF[0]\<close> there, a zero denominator
  \<open>pi * eta0 * h0\<close>, or a negative argument of the square root give a result that is not
  finite. Where the radicand is \<open>0\<close> over the reals, as at the unstable fixed point, the
  source's radicand is a rounding error of either sign and its result is \<open>0\<close>, a tiny
  number or \<open>nan\<close>; the model says nothing reliable there.
\<close>

definition separatrix ::
  "general_parameters \<Rightarrow> rf_section_parameters \<Rightarrow> real \<Rightarrow> real list option \<Rightarrow>
     py_error + separatrix_result" where
  "separatrix GP RF dt tot_voltage =
     bind_err (nth_err (counter RF) 0) (\<lambda>cnt.
     bind_err (column (voltage RF) cnt) (\<lambda>vcol.
     bind_err (column (omega_RF RF) cnt) (\<lambda>omega.
     bind_err (column (phi_RF RF) cnt) (\<lambda>phi.
     bind_err (nth_err (eta_0 RF) cnt) (\<lambda>eta0.
     bind_err (nth_err (beta RF) cnt) (\<lambda>b.
     bind_err (nth_err (energy RF) cnt) (\<lambda>en.
     bind_err
       (if eta0 < 0 then
          bind_err (nth_err phi 0) (\<lambda>p0.
          bind_err (nth_err omega 0) (\<lambda>w0.
            Inr (if w0 = 0 then None
                 else time_modulo dt ((p0 - pi) / w0) (2 * pi / w0))))
        else if eta0 > 0 then
          bind_err (nth_err phi 0) (\<lambda>p0.
          bind_err (nth_err omega 0) (\<lambda>w0.
            Inr (if w0 = 0 then None
                 else time_modulo dt (p0 / w0) (2 * pi / w0))))
        else Inr (Some dt)) (\<lambda>dt'.
     if n_rf RF = 1 then
       bind_err (nth2 (harmonic RF) 0 cnt) (\<lambda>h0.
       bind_err (case tot_voltage of
                   None \<Rightarrow> nth_err (map (\<lambda>v. ring_charge GP * v) vcol) 0
                 | Some tv \<Rightarrow> nth_err tv cnt) (\<lambda>V0.
       bind_err (nth_err (phi_s RF) cnt) (\<lambda>phis.
       bind_err (nth_err omega 0) (\<lambda>w0.
       bind_err (nth_err phi 0) (\<lambda>p0.
         Inr (Value
           (case dt' of
              None \<Rightarrow> Not_finite
            | Some t \<Rightarrow>
                let phi_b = w0 * t + p0;
                    radicand = b ^ 2 * en * V0 / (pi * eta0 * h0)
                      * (- cos phi_b - cos phis + (pi - phis - phi_b) * sin phis)
                in if pi * eta0 * h0 = 0 \<or> radicand < 0 then Not_finite
                   else Finite (sqrt radicand))))))))
     else Inr Multi_harmonic))))))))"

text \<open>
  The bracket of the single-harmonic closed form at the synchronous phase, where
  \<open>phi_b = phi_s\<close>: \<open>- cos phi_s - cos phi_s + (pi - phi_s - phi_s) * sin phi_s\<close>.
\<close>

definition bucket_bracket :: "real \<Rightarrow> real" where
  "bucket_bracket phis = - 2 * cos phis + (pi - 2 * phis) * sin phis"

subsection \<open>Inside the separatrix\<close>

text \<open>
  \<^verbatim>\<open>is_in_separatrix(GeneralParameters, RFSectionParameters, Beam, dt, dE,
  total_voltage = None)\<close> at one point. Both calls of \<open>hamiltonian\<close> are written with
  \<^verbatim>\<open>total_voltage = None\<close> in the source, whatever the argument of the call is. The result
  is \<open>None\<close> when one of the two Hamiltonian values is not finite: the comparison
  then depends on which non-finite value it is.
\<close>

definition is_in_separatrix ::
  "general_parameters \<Rightarrow> rf_section_parameters \<Rightarrow> beam \<Rightarrow> real \<Rightarrow> real \<Rightarrow>
     real list option \<Rightarrow> py_error + bool option" where
  "is_in_separatrix GP RF Beam dt dE tot_voltage =
     bind_err (nth_err (counter RF) 0) (\<lambda>cnt.
     bind_err (nth_err (phi_s RF) cnt) (\<lambda>phis.
     bind_err (nth2 (phi_RF RF) 0 cnt) (\<lambda>p0.
     bind_err (nth2 (omega_RF RF) 0 cnt) (\<lambda>w0.
       let dt_sep = (if w0 = 0 then Not_finite else Finite ((pi - phis - p0) / w0))
       in
     bind_err (hamiltonian GP RF Beam dt_sep 0 None) (\<lambda>Hsep.
     bind_err (hamiltonian GP RF Beam (Finite dt) dE None) (\<lambda>H.
       Inr (case (H, Hsep) of
              (Finite h, Finite hs) \<Rightarrow> Some (\<bar>h\<bar> < \<bar>hs\<bar>)
            | _ \<Rightarrow> None)))))))"

text \<open>
  The direct check as the specification words it: \<open>|H(dt, dE)| < |H(dt_sep, 0)|\<close> with
  \<open>dt_sep = (pi - phi_s - phi_RF) / omega_RF\<close>, both Hamiltonians evaluated with the
  \<open>total_voltage\<close> of the call.
\<close>

definition direct_check ::
  "general_parameters \<Rightarrow> rf_section_parameters \<Rightarrow> beam \<Rightarrow> real \<Rightarrow> real \<Rightarrow>
     real list option \<Rightarrow> py_error + bool option" where
  "direct_check GP RF Beam dt dE tot_voltage =
     bind_err (nth_err (counter RF) 0) (\<lambda>cnt.
     bind_err (nth_err (phi_s RF) cnt) (\<lambda>phis.
     bind_err (nth2 (phi_RF RF) 0 cnt) (\<lambda>p0.
     bind_err (nth2 (omega_RF RF) 0 cnt) (\<lambda>w0.
       let dt_sep = (if w0 = 0 then Not_finite else Finite ((pi - phis - p0) / w0))
       in
     bind_err (hamiltonian GP RF Beam dt_sep 0 tot_voltage) (\<lambda>Hsep.
     bind_err (hamiltonian GP RF Beam (Finite dt) dE tot_voltage) (\<lambda>H.
       Inr (case (H, Hsep) of
              (Finite h, Finite hs) \<Rightarrow> Some (\<bar>h\<bar> < \<bar>hs\<bar>)
            | _ \<Rightarrow> None)))))))"


text \<open>
  A ring and a one-harmonic, one-turn RF program with unit values, used for the concrete
  evaluations below: voltage, harmonic number, angular frequency, beta, energy and
  charges are \<open>1\<close>, the RF phase is \<open>0\<close>, so that the bunch phase of a time \<open>dt\<close> is
  \<open>dt\<close> itself; the synchronous phase, the slip factor and the voltage are parameters.
\<close>

definition unit_ring :: general_parameters where
  "unit_ring = \<lparr>ring_circumference = 1, ring_charge = 1\<rparr>"

definition unit_beam :: beam where
  "unit_beam = \<lparr>beam_beta = 1, beam_energy = 1\<rparr>"

definition unit_rf :: "real \<Rightarrow> real \<Rightarrow> real \<Rightarrow> rf_section_parameters" where
  "unit_rf V phis eta =
     \<lparr>voltage = [[V]], phi_RF = [[0]], n_rf = 1, counter = [0], harmonic = [[1]],
      omega_RF = [[1]], phi_s = [phis], eta_0 = [eta], beta = [1], energy = [1],
      charge = 1, eta_tracking = (\<lambda>B i dE. eta)\<rparr>"


subsection \<open>Synchrotron frequency tracker\<close>

text \<open>
  The fields of \<^verbatim>\<open>synchrotron_frequency_tracker\<close> that \<^verbatim>\<open>frequency_calculation\<close> reads:
  the number of particles, the number of turns, and the saved coordinates, arrays of
  shape (turns, particles).
\<close>

record tracker =
  n_macroparticles :: nat
  nTurns :: nat
  theta_save :: "real list list"
  dE_save :: "real list list"

text \<open>The four arrays that \<^verbatim>\<open>frequency_calculation\<close> stores in the tracker.\<close>

record frequency_result =
  frequency_theta_save :: "real list"
  frequency_dE_save :: "real list"
  max_theta_save :: "real list"
  min_theta_save :: "real list"

text \<open>\<^verbatim>\<open>np.max\<close>, \<^verbatim>\<open>np.min\<close> (a ValueError on an empty array) and \<^verbatim>\<open>np.mean\<close>.\<close>

definition np_max :: "real list \<Rightarrow> py_error + real" where
  "np_max xs = (if xs = [] then Inl ValueError else Inr (Max (set xs)))"

definition np_min :: "real list \<Rightarrow> py_error + real" where
  "np_min xs = (if xs = [] then Inl ValueError else Inr (Min (set xs)))"

definition np_mean :: "real list \<Rightarrow> real" where
  "np_mean xs = sum_list xs / real (length xs)"

text \<open>The slice \<^verbatim>\<open>xs[start:stop]\<close> of Python, for integers of either sign.\<close>

definition py_slice :: "'a list \<Rightarrow> int \<Rightarrow> int \<Rightarrow> 'a list" where
  "py_slice xs start stop =
     (let n = int (length xs);
          s = (if start < 0 then max (start + n) 0 else min start n);
          e = (if stop < 0 then max (stop + n) 0 else min stop n)
      in take (nat (e - s)) (drop (nat s) xs))"

text \<open>The results of a loop that stops at the first exception.\<close>

fun sequence_err :: "('e + 'a) list \<Rightarrow> 'e + 'a list" where
  "sequence_err [] = Inr []"
| "sequence_err (r # rs) =
     (case r of
        Inl e \<Rightarrow> Inl e
      | Inr x \<Rightarrow> (case sequence_err rs of Inl e \<Rightarrow> Inl e | Inr xs \<Rightarrow> Inr (x # xs)))"

text \<open>
  The condition of line 335 under which a particle's frequencies are computed: its
  largest saved theta is below the largest initial theta and its smallest saved theta
  is above the smallest initial theta, both strictly.
\<close>

definition survives :: "real \<Rightarrow> real \<Rightarrow> real \<Rightarrow> real \<Rightarrow> bool" where
  "survives max_theta min_theta max_theta_range min_theta_range =
     (max_theta < max_theta_range \<and> min_theta > min_theta_range)"

text \<open>
  One round of the loop over the particles, for particle \<open>i\<close>: the largest and smallest
  theta of the window, and the two frequencies, which stay at \<open>0\<close> unless the particle
  survives. The parameter \<open>peak\<close> stands for numpy's part of lines 337 to 341: the real
  FFT of the series padded or cut to \<open>n_sampling\<close> samples, its magnitude, and the entry
  of \<^verbatim>\<open>np.fft.rfftfreq(n_sampling, timeStep)\<close> where the magnitude is largest, stored
  in one slot of the result array (an exception when the selection is not one entry).
\<close>

definition particle_frequency ::
  "(real list \<Rightarrow> py_error + real) \<Rightarrow> real list list \<Rightarrow> real list list \<Rightarrow> real \<Rightarrow> real \<Rightarrow>
     nat \<Rightarrow> py_error + real \<times> real \<times> real \<times> real" where
  "particle_frequency peak theta_window dE_window max_theta_range min_theta_range i =
     bind_err (column theta_window i) (\<lambda>thetas.
     bind_err (np_max thetas) (\<lambda>max_theta.
     bind_err (np_min thetas) (\<lambda>min_theta.
       if survives max_theta min_theta max_theta_range min_theta_range then
         bind_err (column dE_window i) (\<lambda>dEs.
         bind_err (peak (map (\<lambda>x. x - np_mean thetas) thetas)) (\<lambda>f_theta.
         bind_err (peak (map (\<lambda>x. x - np_mean dEs) dEs)) (\<lambda>f_dE.
           Inr (max_theta, min_theta, f_theta, f_dE))))
       else Inr (max_theta, min_theta, 0, 0))))"

text \<open>
  \<^verbatim>\<open>frequency_calculation(self, n_sampling=100000, start_turn = None, end_turn = None)\<close>.
\<close>

definition frequency_calculation ::
  "(real list \<Rightarrow> py_error + real) \<Rightarrow> tracker \<Rightarrow> int option \<Rightarrow> int option \<Rightarrow>
     py_error + frequency_result" where
  "frequency_calculation peak tr start_turn end_turn =
     bind_err (nth_err (theta_save tr) 0) (\<lambda>initial.
     bind_err (np_max initial) (\<lambda>max_theta_range.
     bind_err (np_min initial) (\<lambda>min_theta_range.
       let start = (case start_turn of None \<Rightarrow> 0 | Some k \<Rightarrow> k);
           stop = (case end_turn of None \<Rightarrow> int (nTurns tr) + 1 | Some k \<Rightarrow> k);
           theta_window = py_slice (theta_save tr) start stop;
           dE_window = py_slice (dE_save tr) start stop
       in
     bind_err (sequence_err
                 (map (particle_frequency peak theta_window dE_window
                         max_theta_range min_theta_range)
                    [0..<n_macroparticles tr])) (\<lambda>rs.
       Inr \<lparr>frequency_theta_save = map (\<lambda>(mx, mn, ft, fe). ft) rs,
            frequency_dE_save = map (\<lambda>(mx, mn, ft, fe). fe) rs,
            max_theta_save = map (\<lambda>(mx, mn, ft, fe). mx) rs,
            min_theta_save = map (\<lambda>(mx, mn, ft, fe). mn) rs\<rparr>))))"

text \<open>
  A table of what numpy computes in lines 337 to 341, with the default
  \<open>n_sampling = 100000\<close> and \<open>timeStep = 1\<close>, for the two series of the run evaluated
  below. For a series \<open>[- d, d]\<close> the magnitude of bin \<open>k\<close> of the padded transform is
  \<open>2 * d * sin (pi * k / n_sampling)\<close>, for \<open>k\<close> from \<open>0\<close> to \<open>n_sampling / 2\<close>; it is
  largest at the last bin only, and the entry of the frequency array there is
  \<open>50000 * (1 / 100000) = 1 / 2\<close>. Every other series is outside the table, which
  answers with an error there.
\<close>

definition peak_table :: "real list \<Rightarrow> py_error + real" where
  "peak_table s =
     (if s = [- (1 / 4), 1 / 4] \<or> s = [- (1 / 2), 1 / 2] then Inr (1 / 2)
      else Inl ValueError)"

text \<open>
  The loss criterion as the specification words it: the particle's theta excursion
  \<open>[min_theta, max_theta]\<close> exceeds the initial range.
\<close>

definition exceeds_initial_range :: "real \<Rightarrow> real \<Rightarrow> real \<Rightarrow> real \<Rightarrow> bool" where
  "exceeds_initial_range max_theta min_theta max_theta_range min_theta_range =
     (max_theta > max_theta_range \<or> min_theta < min_theta_range)"


text \<open>
  The series of particle \<open>i\<close> over the analysis window, \<^verbatim>\<open>theta_save[start_turn:end_turn,
  i]\<close> and \<^verbatim>\<open>dE_save[start_turn:end_turn, i]\<close>, and a series minus its mean.
\<close>

definition window :: "tracker \<Rightarrow> int option \<Rightarrow> int option \<Rightarrow> real list list \<Rightarrow> real list list" where
  "window tr start_turn end_turn a =
     py_slice a (case start_turn of None \<Rightarrow> 0 | Some k \<Rightarrow> k)
       (case end_turn of None \<Rightarrow> int (nTurns tr) + 1 | Some k \<Rightarrow> k)"

definition theta_series :: "tracker \<Rightarrow> int option \<Rightarrow> int option \<Rightarrow> nat \<Rightarrow> real list" where
  "theta_series tr start_turn end_turn i =
     map (\<lambda>row. row ! i) (window tr start_turn end_turn (theta_save tr))"

definition dE_series :: "tracker \<Rightarrow> int option \<Rightarrow> int option \<Rightarrow> nat \<Rightarrow> real list" where
  "dE_series tr start_turn end_turn i =
     map (\<lambda>row. row ! i) (window tr start_turn end_turn (dE_save tr))"

definition centred :: "real list \<Rightarrow> real list" where
  "centred xs = map (\<lambda>x. x - np_mean xs) xs"


subsection \<open>Extrema of a sampled function\<close>

text \<open>\<^verbatim>\<open>np.diff(f)\<close>: the differences \<open>f[i+1] - f[i]\<close>.\<close>

definition np_diff :: "real list \<Rightarrow> real list" where
  "np_diff f = map2 (\<lambda>a b. b - a) f (tl f)"

text \<open>
  \<^verbatim>\<open>np.interp(x, xp, fp)\<close>, piecewise linear interpolation with constant continuation
  on both sides. \<open>interp_at\<close> walks to the segment \<open>xp[j] \<le> x < xp[j+1]\<close>; numpy finds
  it by bisection, which is the same segment when \<open>xp\<close> is increasing, as numpy
  requires. An empty \<open>xp\<close>, or \<open>xp\<close> and \<open>fp\<close> of different lengths, raise a ValueError.
\<close>

fun interp_at :: "real list \<Rightarrow> real list \<Rightarrow> real \<Rightarrow> real" where
  "interp_at (a # b # xp) (fa # fb # fp) x =
     (if x < b then (fb - fa) / (b - a) * (x - a) + fa
      else interp_at (b # xp) (fb # fp) x)"
| "interp_at xp fp x = (case fp of [] \<Rightarrow> 0 | fa # _ \<Rightarrow> fa)"

definition np_interp :: "real list \<Rightarrow> real list \<Rightarrow> real list \<Rightarrow> py_error + real list" where
  "np_interp x xp fp =
     (if xp = [] \<or> length xp \<noteq> length fp then Inl ValueError
      else Inr (map (\<lambda>xi. if xi < hd xp then hd fp
                           else if xi > last xp then last fp
                           else interp_at xp fp xi) x))"

text \<open>
  \<^verbatim>\<open>(x[idx + 1] + x[idx])/2\<close> for an array \<open>idx\<close> of indices: an IndexError when one of
  the indices is the last of \<open>x\<close>.
\<close>

definition midpoints :: "real list \<Rightarrow> nat list \<Rightarrow> py_error + real list" where
  "midpoints x idx =
     sequence_err
       (map (\<lambda>z. bind_err (nth_err x (z + 1)) (\<lambda>a.
                  bind_err (nth_err x z) (\<lambda>b. Inr ((a + b) / 2)))) idx)"

text \<open>
  \<^verbatim>\<open>minmax_location(x, f)\<close>. The zeros of the derivative are the indices where it is
  \<open>0\<close> or where the quotient of the next value by this one is negative, in increasing
  order and without repetition (\<^verbatim>\<open>np.unique\<close>). Where the derivative is \<open>0\<close> the index
  is a zero whatever numpy's quotient by zero is, and the quotient of HOL, \<open>0\<close>, adds
  nothing. The result is \<open>((min_x, max_x), (min_values, max_values))\<close>.
\<close>

definition minmax_location ::
  "real list \<Rightarrow> real list \<Rightarrow>
     py_error + (real list \<times> real list) \<times> (real list \<times> real list)" where
  "minmax_location x f =
     bind_err (nth_err x 1) (\<lambda>x1.
     bind_err (nth_err x 0) (\<lambda>x0.
       let x_derivative = map (\<lambda>a. a + (x1 - x0) / 2) (butlast x) in
     bind_err (np_interp x x_derivative (np_diff f)) (\<lambda>f_derivative.
     bind_err (np_interp x x_derivative (np_diff f_derivative)) (\<lambda>f_derivative_second.
       let f_derivative_zeros =
             filter (\<lambda>i. f_derivative ! i = 0
                        \<or> (Suc i < length f_derivative
                            \<and> f_derivative ! Suc i / f_derivative ! i < 0))
               [0..<length f_derivative];
           min_index = filter (\<lambda>i. f_derivative_second ! i > 0) f_derivative_zeros;
           max_index = filter (\<lambda>i. f_derivative_second ! i < 0) f_derivative_zeros
       in
     bind_err (midpoints x min_index) (\<lambda>min_x_position.
     bind_err (midpoints x max_index) (\<lambda>max_x_position.
     bind_err (np_interp min_x_position x f) (\<lambda>min_values.
     bind_err (np_interp max_x_position x f) (\<lambda>max_values.
       Inr ((min_x_position, max_x_position), (min_values, max_values))))))))))"

subsection \<open>Cutting the potential well\<close>

text \<open>\<^verbatim>\<open>a[mask]\<close>: the entries of \<open>a\<close> where the boolean array \<open>keep\<close> is true.\<close>

definition select :: "bool list \<Rightarrow> 'a list \<Rightarrow> 'a list" where
  "select keep a = map snd (filter fst (zip keep a))"

text \<open>
  The points of the well kept by a cut: those whose potential is below \<open>level\<close> and
  whose time satisfies \<open>side\<close>. This is \<^verbatim>\<open>saved_indexes\<close>, a product of boolean arrays,
  used to index \<^verbatim>\<open>time_potential\<close> and \<^verbatim>\<open>potential_array\<close>.
\<close>

definition cut :: "real \<Rightarrow> (real \<Rightarrow> bool) \<Rightarrow> real list \<Rightarrow> real list \<Rightarrow> real list \<times> real list" where
  "cut level side time_potential potential_array =
     (let saved_indexes = map2 (\<lambda>p t. p < level \<and> side t) potential_array time_potential
      in (select saved_indexes time_potential, select saved_indexes potential_array))"

text \<open>
  The texts of the source, each cut after its first sentence: the warning printed when
  no maximum is found (it goes on to say that the full potential well will be taken),
  and the messages of the three RuntimeErrors.
\<close>

definition no_maximum_warning :: string where
  "no_maximum_warning = ''Warning: The maximum of the potential well could not be found...''"

definition no_minima :: string where
  "no_minima = ''The potential well has no minima...''"

definition more_minima :: string where
  "more_minima = ''The potential well has more minima than maxima, and only one maximum''"

definition not_well_defined :: string where
  "not_well_defined = ''The potential well is not well defined.''"

text \<open>
  \<^verbatim>\<open>potential_well_cut(time_potential, potential_array)\<close>. In the branch of no maximum
  the source prints its warning and assigns nothing; the \<^verbatim>\<open>return\<close> statement then reads
  the local variable \<^verbatim>\<open>time_potential_sep\<close>, which has no value: an UnboundLocalError.
  In the branch of more than two maxima, \<^verbatim>\<open>np.min\<close> of the two arrays of values at the
  leftmost and at the rightmost maximum needs arrays of one length.
\<close>

definition potential_well_cut ::
  "real list \<Rightarrow> real list \<Rightarrow> diagnostic list \<times> (py_error + real list \<times> real list)" where
  "potential_well_cut time_potential potential_array =
     (case minmax_location time_potential potential_array of
        Inl e \<Rightarrow> ([], Inl e)
      | Inr ((min_time_positions, max_time_positions), (min_values, max_potential_values)) \<Rightarrow>
          let n_minima = length min_time_positions;
              n_maxima = length max_time_positions
          in
          if n_minima = 0 then ([], Inl (RuntimeError no_minima))
          else if n_minima > n_maxima \<and> n_maxima = 1 then ([], Inl (RuntimeError more_minima))
          else if n_maxima = 0 then ([Printed no_maximum_warning], Inl UnboundLocalError)
          else if n_maxima = 1 then
            (if hd min_time_positions > hd max_time_positions then
               (if last potential_array < hd potential_array
                then ([], Inl (RuntimeError not_well_defined))
                else ([], Inr (cut (hd max_potential_values)
                                 (\<lambda>t. t > hd max_time_positions)
                                 time_potential potential_array)))
             else
               (if last potential_array > hd potential_array
                then ([], Inl (RuntimeError not_well_defined))
                else ([], Inr (cut (hd max_potential_values)
                                 (\<lambda>t. t < hd max_time_positions)
                                 time_potential potential_array))))
          else if n_maxima = 2 then
            (let lower_maximum_value = Min (set max_potential_values);
                 higher_maximum_value = Max (set max_potential_values);
                 lower_maximum_time =
                   select (map (\<lambda>v. v = lower_maximum_value) max_potential_values)
                     max_time_positions;
                 higher_maximum_time =
                   select (map (\<lambda>v. v = higher_maximum_value) max_potential_values)
                     max_time_positions
             in
             if length lower_maximum_time = 2 then
               ([], Inr (cut lower_maximum_value
                           (\<lambda>t. t > lower_maximum_time ! 0 \<and> t < lower_maximum_time ! 1)
                           time_potential potential_array))
             else if hd min_time_positions > hd lower_maximum_time then
               ([], Inr (cut lower_maximum_value
                           (\<lambda>t. t > hd lower_maximum_time \<and> t < hd higher_maximum_time)
                           time_potential potential_array))
             else
               ([], Inr (cut lower_maximum_value
                           (\<lambda>t. t < hd lower_maximum_time \<and> t > hd higher_maximum_time)
                           time_potential potential_array)))
          else
            (let left_max_time = Min (set max_time_positions);
                 right_max_time = Max (set max_time_positions);
                 left_max_value =
                   select (map (\<lambda>t. t = left_max_time) max_time_positions)
                     max_potential_values;
                 right_max_value =
                   select (map (\<lambda>t. t = right_max_time) max_time_positions)
                     max_potential_values
             in
             if length left_max_value \<noteq> length right_max_value then ([], Inl ValueError)
             else
               ([], Inr (cut (Min (set (left_max_value @ right_max_value)))
                           (\<lambda>t. t > left_max_time \<and> t < right_max_time)
                           time_potential potential_array))))"


section \<open>Properties\<close>

subsection \<open>Total voltage\<close>

lemma first_component_well_shaped:
  "well_shaped n s \<Longrightarrow>
     first_component f s =
       Inr (map (\<lambda>j. hd (voltage s) ! j * f (hd (phi_RF s) ! j)) [0..<n])"
  by (auto simp: well_shaped_def first_component_def row0_def np_binary_def
      split: list.splits intro!: nth_equalityI)

lemma np_binary_add_upt:
  fixes f g :: "nat \<Rightarrow> real"
  shows "np_binary (+) (map f [0..<n]) (map g [0..<n]) = Inr (map (\<lambda>j. f j + g j) [0..<n])"
  by (auto simp: np_binary_def intro!: nth_equalityI)

lemma np_iadd_upt:
  fixes f g :: "nat \<Rightarrow> real"
  shows "np_iadd (map f [0..<n]) (map g [0..<n]) = Inr (map (\<lambda>j. f j + g j) [0..<n])"
  by (auto simp: np_iadd_def intro!: nth_equalityI)

lemma add_sections_well_shaped:
  assumes "\<forall>s \<in> set ss. well_shaped n s"
  shows "snd (add_sections ss (map a [0..<n]) (map b [0..<n]) out) =
     Inr (map (\<lambda>j. a j + (\<Sum>s\<leftarrow>ss. hd (voltage s) ! j * cos (hd (phi_RF s) ! j))) [0..<n],
          map (\<lambda>j. b j + (\<Sum>s\<leftarrow>ss. hd (voltage s) ! j * sin (hd (phi_RF s) ! j))) [0..<n])"
  using assms
proof (induction ss arbitrary: a b out)
  case Nil
  then show ?case by simp
next
  case (Cons s ss)
  then have ws: "well_shaped n s" and rest: "\<forall>s \<in> set ss. well_shaped n s"
    by simp_all
  obtain v vs where v: "voltage s = v # vs"
    using ws by (auto simp: well_shaped_def split: list.splits)
  have r: "row0 (voltage s) = Inr v"
    by (simp add: row0_def v)
  show ?case
    by (simp add: r first_component_well_shaped[OF ws] np_iadd_upt Cons.IH[OF rest] add.assoc)
qed

lemma total_voltage_first:
  assumes "secs \<noteq> []" and "\<forall>s \<in> set secs. well_shaped n s"
  shows "snd (total_voltage secs ''first'') = Inr (Array (map (quadrature_first secs) [0..<n]))"
proof -
  obtain s0 rest where secs: "secs = s0 # rest"
    using assms(1) by (cases secs) auto
  have ws: "well_shaped n s0" and rest: "\<forall>s \<in> set rest. well_shaped n s"
    using assms(2) by (simp_all add: secs)
  let ?a = "\<lambda>j. hd (voltage s0) ! j * cos (hd (phi_RF s0) ! j)"
  let ?b = "\<lambda>j. hd (voltage s0) ! j * sin (hd (phi_RF s0) ! j)"
  obtain out r where ar: "add_sections rest (map ?a [0..<n]) (map ?b [0..<n]) [] = (out, r)"
    by (cases "add_sections rest (map ?a [0..<n]) (map ?b [0..<n]) []") auto
  from add_sections_well_shaped[OF rest, of ?a ?b "[]"] ar
  have r: "r = Inr
      (map (\<lambda>j. ?a j + (\<Sum>s\<leftarrow>rest. hd (voltage s) ! j * cos (hd (phi_RF s) ! j))) [0..<n],
       map (\<lambda>j. ?b j + (\<Sum>s\<leftarrow>rest. hd (voltage s) ! j * sin (hd (phi_RF s) ! j))) [0..<n])"
    by simp
  show ?thesis
    unfolding secs total_voltage_def
    by (simp add: first_component_well_shaped[OF ws] ar r np_binary_add_upt
        quadrature_first_def)
qed

text \<open>
  Claim C2, as the code has it. With mode \<open>first\<close>, on a non-empty list of sections whose
  first-harmonic voltage and phase rows all have \<open>n\<close> entries, \<open>total_voltage\<close> returns
  turn by turn the quadrature combination \<open>sqrt (Vcos^2 + Vsin^2)\<close> of the summed
  per-section cosine and sine components. With mode \<open>all\<close> it returns the integer \<open>0\<close>
  and emits nothing. With any other mode name it emits one warning and returns \<open>None\<close>;
  no error is raised.
\<close>

theorem total_voltage_modes:
  "(secs \<noteq> [] \<and> (\<forall>s \<in> set secs. well_shaped n s) \<longrightarrow>
      snd (total_voltage secs ''first'') = Inr (Array (map (quadrature_first secs) [0..<n])))
   \<and> total_voltage secs ''all'' = ([], Inr (Int_value 0))
   \<and> (mode \<noteq> ''first'' \<and> mode \<noteq> ''all'' \<longrightarrow>
      total_voltage secs mode =
        ([Warned ''WARNING: In total_voltage, harmonic choice not recognize!''],
         Inr None_value))"
  using total_voltage_first[of secs n] by (simp add: total_voltage_def)

theorem total_voltage_modes_witness:
  "[\<lparr>voltage = [[3]], phi_RF = [[0]]\<rparr>, \<lparr>voltage = [[4]], phi_RF = [[pi / 2]]\<rparr>] \<noteq> []
   \<and> well_shaped 1 \<lparr>voltage = [[3]], phi_RF = [[0]]\<rparr>
   \<and> well_shaped 1 \<lparr>voltage = [[4]], phi_RF = [[pi / 2]]\<rparr>
   \<and> snd (total_voltage
         [\<lparr>voltage = [[3]], phi_RF = [[0]]\<rparr>, \<lparr>voltage = [[4]], phi_RF = [[pi / 2]]\<rparr>]
         ''first'') = Inr (Array [5])
   \<and> ''second'' \<noteq> ''first'' \<and> ''second'' \<noteq> ''all''
   \<and> total_voltage
         [\<lparr>voltage = [[3]], phi_RF = [[0]]\<rparr>, \<lparr>voltage = [[4]], phi_RF = [[pi / 2]]\<rparr>]
         ''second'' =
        ([Warned ''WARNING: In total_voltage, harmonic choice not recognize!''],
         Inr None_value)"
proof -
  have s: "sqrt 25 = 5"
    using real_sqrt_abs[of 5] by simp
  show ?thesis
    using total_voltage_modes
      [of "[\<lparr>voltage = [[3]], phi_RF = [[0]]\<rparr>, \<lparr>voltage = [[4]], phi_RF = [[pi / 2]]\<rparr>]"
          1 "''second''"]
    by (simp add: well_shaped_def quadrature_first_def s)
qed

text \<open>
  The claim as worded fails: on a one-section ring, mode \<open>all\<close> returns \<open>0\<close> with an empty
  list of diagnostics, and the unknown mode \<open>second\<close> returns \<open>None\<close> after a warning
  instead of raising an error.
\<close>

theorem total_voltage_all_silent_unknown_returns:
  "total_voltage [\<lparr>voltage = [[3]], phi_RF = [[0]]\<rparr>] ''all'' = ([], Inr (Int_value 0))
   \<and> total_voltage [\<lparr>voltage = [[3]], phi_RF = [[0]]\<rparr>] ''second'' =
       ([Warned ''WARNING: In total_voltage, harmonic choice not recognize!''],
        Inr None_value)"
  by (simp add: total_voltage_def)

subsection \<open>Separatrix of a single-harmonic RF system\<close>

text \<open>
  Above transition, folding the time with \<open>time_modulo\<close> folds the bunch phase
  \<open>omega * dt + phi\<close> into \<open>[0, 2 * pi)\<close>.
\<close>

lemma fold_above_transition:
  assumes "w0 \<noteq> 0"
  shows "\<exists>t. time_modulo dt (p0 / w0) (2 * pi / w0) = Some t
       \<and> w0 * t + p0 = phase_modulo_above_transition (w0 * dt + p0)"
proof -
  let ?k = "real_of_int \<lfloor>(w0 * dt + p0) / (2 * pi)\<rfloor>"
  have q: "(dt + p0 / w0) / (2 * pi / w0) = (w0 * dt + p0) / (2 * pi)"
    using assms by (simp add: field_simps)
  have T: "2 * pi / w0 \<noteq> 0"
    using assms by simp
  have a: "time_modulo dt (p0 / w0) (2 * pi / w0) = Some (dt - 2 * pi / w0 * ?k)"
    unfolding time_modulo_def q using T by simp
  have b: "w0 * (dt - 2 * pi / w0 * ?k) + p0 = phase_modulo_above_transition (w0 * dt + p0)"
    unfolding phase_modulo_above_transition_def using assms by (simp add: field_simps)
  from a b show ?thesis by blast
qed

lemma floor_within_period:
  fixes x p :: real
  shows "0 \<le> x \<Longrightarrow> x < p \<Longrightarrow> \<lfloor>x / p\<rfloor> = 0"
  by (simp add: floor_eq_iff)

text \<open>
  The bracket at the synchronous phase is \<open>0\<close> at \<open>pi / 2\<close> and grows from there to \<open>2\<close>
  at \<open>pi\<close>: its derivative is \<open>(pi - 2 * x) * cos x\<close>, a product of two negative numbers.
\<close>

lemma bucket_bracket_deriv:
  "DERIV bucket_bracket x :> (pi - 2 * x) * cos x"
  unfolding bucket_bracket_def
  by (auto intro!: derivative_eq_intros simp: algebra_simps)

lemma cos_neg_second_quadrant:
  assumes "pi / 2 < x" and "x \<le> pi"
  shows "cos x < 0"
proof -
  have "0 < cos (pi - x)"
    using assms by (intro cos_gt_zero_pi) auto
  then show ?thesis by simp
qed

lemma bucket_bracket_positive:
  assumes "pi / 2 < phis" and "phis \<le> pi"
  shows "0 < bucket_bracket phis"
proof -
  define a where "a = (pi / 2 + phis) / 2"
  have a: "pi / 2 < a" "a < phis" "a \<le> pi"
    using assms by (simp_all add: a_def)
  have z: "bucket_bracket (pi / 2) = 0"
    by (simp add: bucket_bracket_def)
  have "bucket_bracket (pi / 2) \<le> bucket_bracket a"
  proof (rule DERIV_nonneg_imp_nondecreasing[of "pi / 2" a bucket_bracket])
    show "pi / 2 \<le> a" using a by simp
  next
    fix x assume x: "pi / 2 \<le> x" "x \<le> a"
    have "0 \<le> (pi - 2 * x) * cos x"
    proof (cases "x = pi / 2")
      case True
      then have "pi - 2 * x = 0" by simp
      then show ?thesis by simp
    next
      case False
      with x a have "pi / 2 < x" "x \<le> pi" by auto
      from cos_neg_second_quadrant[OF this] \<open>pi / 2 < x\<close>
      show ?thesis by (simp add: mult_nonpos_nonpos)
    qed
    with bucket_bracket_deriv[of x]
    show "\<exists>y. DERIV bucket_bracket x :> y \<and> 0 \<le> y" by blast
  qed
  moreover have "bucket_bracket a < bucket_bracket phis"
  proof (rule DERIV_pos_imp_increasing[of a phis bucket_bracket])
    show "a < phis" using a by simp
  next
    fix x assume x: "a \<le> x" "x \<le> phis"
    with a assms have q: "pi / 2 < x" "x \<le> pi" by auto
    from cos_neg_second_quadrant[OF q] q(1)
    have "0 < (pi - 2 * x) * cos x" by (simp add: mult_neg_neg)
    with bucket_bracket_deriv[of x]
    show "\<exists>y. DERIV bucket_bracket x :> y \<and> 0 < y" by blast
  qed
  ultimately show ?thesis using z by linarith
qed

text \<open>
  Claim C3, as the code has it. For a single-harmonic RF system above transition
  (\<open>eta0 > 0\<close>) with a positive coefficient \<open>beta^2 * E * V0 / (pi * eta0 * h0)\<close> and a
  synchronous phase between \<open>2 * pi / 3\<close> and \<open>pi\<close>, \<open>separatrix\<close> evaluated at a time
  whose bunch phase is the synchronous phase returns the square root of the coefficient
  times \<open>- 2 * cos phi_s + (pi - 2 * phi_s) * sin phi_s\<close>, a strictly positive number:
  the height of the bucket, not \<open>0\<close>. The value at the unstable fixed point is not part
  of the statement.
\<close>

theorem separatrix_synchronous_phase_height:
  assumes "n_rf RF = 1"
    and "nth_err (counter RF) 0 = Inr cnt"
    and "column (voltage RF) cnt = Inr vcol"
    and "column (omega_RF RF) cnt = Inr omega" and "nth_err omega 0 = Inr w0"
    and "column (phi_RF RF) cnt = Inr phi" and "nth_err phi 0 = Inr p0"
    and "nth_err (eta_0 RF) cnt = Inr eta0"
    and "nth_err (beta RF) cnt = Inr b"
    and "nth_err (energy RF) cnt = Inr en"
    and "nth2 (harmonic RF) 0 cnt = Inr h0"
    and "(case tv of None \<Rightarrow> nth_err (map (\<lambda>v. ring_charge GP * v) vcol) 0
                   | Some a \<Rightarrow> nth_err a cnt) = Inr V0"
    and "nth_err (phi_s RF) cnt = Inr phis"
    and "w0 \<noteq> 0" and "0 < eta0"
    and "0 < b ^ 2 * en * V0 / (pi * eta0 * h0)"
    and "w0 * dt + p0 = phis"
    and "2 * pi / 3 \<le> phis" and "phis \<le> pi"
  shows "separatrix GP RF dt tv
           = Inr (Value (Finite
               (sqrt (b ^ 2 * en * V0 / (pi * eta0 * h0) * bucket_bracket phis))))
       \<and> 0 < b ^ 2 * en * V0 / (pi * eta0 * h0) * bucket_bracket phis"
proof -
  have w: "0 \<le> phis" "phis < 2 * pi"
    using assms(18,19) pi_gt_zero by linarith+
  have "phase_modulo_above_transition phis = phis"
    unfolding phase_modulo_above_transition_def using floor_within_period[OF w] by simp
  with fold_above_transition[OF assms(14), of dt p0]
  obtain t where t: "time_modulo dt (p0 / w0) (2 * pi / w0) = Some t"
    and ph: "w0 * t + p0 = phis"
    by (auto simp: assms(17))
  have "pi / 2 < phis"
    using assms(18) pi_gt_zero by linarith
  from bucket_bracket_positive[OF this assms(19)]
  have bp: "0 < bucket_bracket phis" .
  have pos: "0 < b ^ 2 * en * V0 / (pi * eta0 * h0) * bucket_bracket phis"
    by (rule mult_pos_pos[OF assms(16) bp])
  have d: "pi * eta0 * h0 \<noteq> 0"
    using assms(16) by auto
  have br: "- cos phis - cos phis + (pi - phis - phis) * sin phis = bucket_bracket phis"
    by (simp add: bucket_bracket_def)
  have s: "separatrix GP RF dt tv
      = Inr (Value
          (if pi * eta0 * h0 = 0
              \<or> b ^ 2 * en * V0 / (pi * eta0 * h0)
                  * (- cos phis - cos phis + (pi - phis - phis) * sin phis) < 0
           then Not_finite
           else Finite (sqrt (b ^ 2 * en * V0 / (pi * eta0 * h0)
                  * (- cos phis - cos phis + (pi - phis - phis) * sin phis)))))"
    unfolding separatrix_def
    using assms(1-15) t
    by (simp add: bind_err_def Let_def ph)
  have "separatrix GP RF dt tv
      = Inr (Value (Finite
          (sqrt (b ^ 2 * en * V0 / (pi * eta0 * h0) * bucket_bracket phis))))"
    unfolding s br using d pos by simp
  with pos show ?thesis by blast
qed

theorem separatrix_synchronous_phase_height_witness:
  "n_rf (unit_rf 1 (5 * pi / 6) 1) = 1
   \<and> 1 * (5 * pi / 6) + 0 = 5 * pi / 6
   \<and> 2 * pi / 3 \<le> 5 * pi / 6 \<and> 5 * pi / 6 \<le> pi
   \<and> separatrix unit_ring (unit_rf 1 (5 * pi / 6) 1) (5 * pi / 6) None
       = Inr (Value (Finite (sqrt (1 / pi * bucket_bracket (5 * pi / 6)))))
   \<and> 0 < 1 / pi * bucket_bracket (5 * pi / 6)"
proof -
  have "separatrix unit_ring (unit_rf 1 (5 * pi / 6) 1) (5 * pi / 6) None
           = Inr (Value (Finite
               (sqrt (1 ^ 2 * 1 * 1 / (pi * 1 * 1) * bucket_bracket (5 * pi / 6)))))
       \<and> 0 < 1 ^ 2 * 1 * 1 / (pi * 1 * 1) * bucket_bracket (5 * pi / 6)"
    by (rule separatrix_synchronous_phase_height
          [where cnt = 0 and vcol = "[1]" and omega = "[1]" and ?w0.0 = 1 and phi = "[0]"
             and ?p0.0 = 0 and ?eta0.0 = 1 and b = 1 and en = 1 and ?h0.0 = 1 and ?V0.0 = 1
             and phis = "5 * pi / 6"])
       (simp_all add: unit_rf_def unit_ring_def nth_err_def nth2_def column_def bind_err_def)
  then show ?thesis
    by (simp add: unit_rf_def)
qed

text \<open>
  The claim as worded fails. Above transition with \<open>phi_s = pi\<close>, the time \<open>dt = pi\<close> has
  bunch phase \<open>phi_s\<close> and the separatrix there is \<open>sqrt (2 / pi)\<close>, the height of the
  bucket, not \<open>0\<close>.
\<close>

theorem separatrix_nonzero_at_synchronous_phase:
  "separatrix unit_ring (unit_rf 1 pi 1) pi None = Inr (Value (Finite (sqrt (2 / pi))))
   \<and> sqrt (2 / pi) \<noteq> 0"
proof -
  have a: "separatrix unit_ring (unit_rf 1 pi 1) pi None = Inr (Value (Finite (sqrt (2 / pi))))"
    by (simp add: separatrix_def unit_ring_def unit_rf_def bind_err_def nth_err_def nth2_def
        column_def time_modulo_def Let_def)
  from a show ?thesis by simp
qed

subsection \<open>Inside the separatrix\<close>

lemma c_light_positive: "0 < c_light"
  by (simp add: c_light_def)

lemma is_in_separatrix_drops_total_voltage:
  "is_in_separatrix GP RF Beam dt dE tv = direct_check GP RF Beam dt dE None"
  by (simp add: is_in_separatrix_def direct_check_def)

lemma hamiltonian_unit_point:
  assumes "tv = None \<or> tv = Some [1 / 10]"
  shows "hamiltonian unit_ring (unit_rf 1 0 1) unit_beam (Finite 0) (1 / 2) tv
     = Inr (Finite (c_light * pi / 4))"
  using assms
  by (auto simp add: hamiltonian_def unit_ring_def unit_rf_def unit_beam_def bind_err_def
      nth_err_def nth2_def Let_def phase_modulo_above_transition_def power2_eq_square)

lemma hamiltonian_unit_edge:
  "hamiltonian unit_ring (unit_rf 1 0 1) unit_beam (Finite pi) 0 None
     = Inr (Finite (- 2 * c_light))"
  by (simp add: hamiltonian_def unit_ring_def unit_rf_def unit_beam_def bind_err_def
      nth_err_def nth2_def Let_def phase_modulo_above_transition_def)

lemma hamiltonian_unit_edge_total_voltage:
  "hamiltonian unit_ring (unit_rf 1 0 1) unit_beam (Finite pi) 0 (Some [1 / 10])
     = Inr (Finite (- c_light / 5))"
  by (simp add: hamiltonian_def unit_ring_def unit_rf_def unit_beam_def bind_err_def
      nth_err_def nth2_def Let_def phase_modulo_above_transition_def)

text \<open>
  Claim C4 fails on the code at this input. With a total voltage of \<open>1 / 10\<close> given to
  the call (the RF program's own voltage is \<open>1\<close>), the point \<open>dt = 0\<close>, \<open>dE = 1 / 2\<close> has
  \<open>|H| = c * pi / 4\<close>, and the bucket edge has \<open>|H_sep| = c / 5\<close> when the Hamiltonian
  uses the given total voltage: the direct check says the point is outside.
  \<open>is_in_separatrix\<close> evaluates both Hamiltonians with \<open>total_voltage = None\<close>, finds
  \<open>|H_sep| = 2 * c\<close>, and says the point is inside.
\<close>

theorem is_in_separatrix_ignores_total_voltage:
  "is_in_separatrix unit_ring (unit_rf 1 0 1) unit_beam 0 (1 / 2) (Some [1 / 10])
     = Inr (Some True)
   \<and> direct_check unit_ring (unit_rf 1 0 1) unit_beam 0 (1 / 2) (Some [1 / 10])
     = Inr (Some False)"
proof -
  have l: "nth_err (counter (unit_rf 1 0 1)) 0 = Inr 0"
    "nth_err (phi_s (unit_rf 1 0 1)) 0 = Inr 0"
    "nth2 (phi_RF (unit_rf 1 0 1)) 0 0 = Inr 0"
    "nth2 (omega_RF (unit_rf 1 0 1)) 0 0 = Inr 1"
    by (simp_all add: unit_rf_def nth_err_def nth2_def bind_err_def)
  have "c_light * pi / 4 < 2 * c_light"
    using c_light_positive pi_less_4 by (simp add: field_simps)
  then have inside: "\<bar>c_light * pi / 4\<bar> < \<bar>- 2 * c_light\<bar>"
    using c_light_positive by (simp add: abs_mult)
  have "c_light / 5 < c_light * pi / 4"
    using c_light_positive pi_ge_two by (simp add: field_simps)
  then have outside: "\<not> \<bar>c_light * pi / 4\<bar> < \<bar>- c_light / 5\<bar>"
    using c_light_positive by (simp add: abs_mult)
  have a: "is_in_separatrix unit_ring (unit_rf 1 0 1) unit_beam 0 (1 / 2) (Some [1 / 10])
      = Inr (Some True)"
    using inside
    by (simp add: is_in_separatrix_def l bind_err_def Let_def hamiltonian_unit_point
        hamiltonian_unit_edge)
  have b: "direct_check unit_ring (unit_rf 1 0 1) unit_beam 0 (1 / 2) (Some [1 / 10])
      = Inr (Some False)"
    using outside
    by (simp add: direct_check_def l bind_err_def Let_def hamiltonian_unit_point
        hamiltonian_unit_edge_total_voltage)
  from a b show ?thesis by blast
qed

subsection \<open>Synchrotron frequency tracker\<close>

lemma sequence_err_map:
  "sequence_err (map f xs) = Inr rs \<Longrightarrow>
     length rs = length xs \<and> (\<forall>i < length xs. f (xs ! i) = Inr (rs ! i))"
proof (induction xs arbitrary: rs)
  case Nil
  then show ?case by simp
next
  case (Cons x xs)
  then obtain y ys
    where y: "f x = Inr y" and ys: "sequence_err (map f xs) = Inr ys" and rs: "rs = y # ys"
    by (auto split: sum.splits)
  from Cons.IH[OF ys] show ?case
    by (auto simp: rs y nth_Cons split: nat.splits)
qed

lemma particle_frequency_result:
  assumes "particle_frequency peak tw dw maxr minr i = Inr (mx, mn, ft, fe)"
  shows "mx = Max (set (map (\<lambda>row. row ! i) tw)) \<and> mn = Min (set (map (\<lambda>row. row ! i) tw))
    \<and> (if mx < maxr \<and> minr < mn
        then peak (centred (map (\<lambda>row. row ! i) tw)) = Inr ft
           \<and> peak (centred (map (\<lambda>row. row ! i) dw)) = Inr fe
        else ft = 0 \<and> fe = 0)"
  using assms
  by (auto simp: particle_frequency_def bind_err_def column_def np_max_def np_min_def
      survives_def centred_def split: if_splits sum.splits)

text \<open>
  Claim C7, as the code has it. After a call of \<open>frequency_calculation\<close> that returns,
  particle \<open>i\<close> has its largest and smallest theta of the analysis window recorded;
  when the largest is strictly below the largest initial theta and the smallest strictly
  above the smallest initial theta, its two frequencies are the two spectral peak
  estimates, one of the centred theta series and one of the centred dE series;
  otherwise, that is when its excursion reaches or exceeds the initial range, both
  frequencies are left at \<open>0\<close>.
\<close>

theorem frequency_calculation_loss_criterion:
  assumes "frequency_calculation peak tr st en = Inr r" and "i < n_macroparticles tr"
  shows "max_theta_save r ! i = Max (set (theta_series tr st en i))
     \<and> min_theta_save r ! i = Min (set (theta_series tr st en i))
     \<and> (if Max (set (theta_series tr st en i)) < Max (set (theta_save tr ! 0))
           \<and> Min (set (theta_save tr ! 0)) < Min (set (theta_series tr st en i))
        then peak (centred (theta_series tr st en i)) = Inr (frequency_theta_save r ! i)
           \<and> peak (centred (dE_series tr st en i)) = Inr (frequency_dE_save r ! i)
        else frequency_theta_save r ! i = 0 \<and> frequency_dE_save r ! i = 0)"
proof -
  let ?tw = "window tr st en (theta_save tr)"
  let ?dw = "window tr st en (dE_save tr)"
  let ?maxr = "Max (set (theta_save tr ! 0))"
  let ?minr = "Min (set (theta_save tr ! 0))"
  from assms(1) obtain rs where
    seq: "sequence_err (map (particle_frequency peak ?tw ?dw ?maxr ?minr)
            [0..<n_macroparticles tr]) = Inr rs"
    and r: "r = \<lparr>frequency_theta_save = map (\<lambda>(mx, mn, ft, fe). ft) rs,
            frequency_dE_save = map (\<lambda>(mx, mn, ft, fe). fe) rs,
            max_theta_save = map (\<lambda>(mx, mn, ft, fe). mx) rs,
            min_theta_save = map (\<lambda>(mx, mn, ft, fe). mn) rs\<rparr>"
    by (auto simp: frequency_calculation_def bind_err_def nth_err_def np_max_def np_min_def
        Let_def window_def split: sum.splits if_splits)
  from sequence_err_map[OF seq] assms(2)
  have len: "length rs = n_macroparticles tr"
    and p: "particle_frequency peak ?tw ?dw ?maxr ?minr i = Inr (rs ! i)"
    by auto
  obtain mx mn ft fe where q: "rs ! i = (mx, mn, ft, fe)"
    by (cases "rs ! i") auto
  have sel: "max_theta_save r ! i = mx" "min_theta_save r ! i = mn"
    "frequency_theta_save r ! i = ft" "frequency_dE_save r ! i = fe"
    using len assms(2) q by (simp_all add: r)
  from particle_frequency_result[OF p[unfolded q]]
  show ?thesis
    unfolding sel theta_series_def dE_series_def by simp
qed

text \<open>
  A run over two turns with three particles. The outer two sit on the ends of the
  initial range and are lost. The middle one moves from \<open>1\<close> to \<open>3 / 2\<close> and its energy
  from \<open>0\<close> to \<open>1\<close>; its centred series are \<open>[- 1 / 4, 1 / 4]\<close> and \<open>[- 1 / 2, 1 / 2]\<close>,
  and numpy's peak for both is the last bin, of frequency \<open>1 / 2\<close>.
\<close>

theorem frequency_calculation_loss_criterion_witness:
  "frequency_calculation peak_table
     \<lparr>n_macroparticles = 3, nTurns = 2,
      theta_save = [[0, 1, 2], [0, 3 / 2, 2]], dE_save = [[0, 0, 0], [0, 1, 0]]\<rparr>
     None None
   = Inr \<lparr>frequency_theta_save = [0, 1 / 2, 0], frequency_dE_save = [0, 1 / 2, 0],
          max_theta_save = [0, 3 / 2, 2], min_theta_save = [0, 1, 2]\<rparr>
   \<and> (1 :: nat) < 3
   \<and> Max (set (theta_series
        \<lparr>n_macroparticles = 3, nTurns = 2,
         theta_save = [[0, 1, 2], [0, 3 / 2, 2]], dE_save = [[0, 0, 0], [0, 1, 0]]\<rparr>
        None None 1)) = 3 / 2
   \<and> centred [1, 3 / 2] = [- (1 / 4), 1 / 4]
   \<and> peak_table [- (1 / 4), 1 / 4] = Inr (1 / 2)"
proof -
  have e: "frequency_calculation peak_table
     \<lparr>n_macroparticles = 3, nTurns = 2,
      theta_save = [[0, 1, 2], [0, 3 / 2, 2]], dE_save = [[0, 0, 0], [0, 1, 0]]\<rparr>
     None None
   = Inr \<lparr>frequency_theta_save = [0, 1 / 2, 0], frequency_dE_save = [0, 1 / 2, 0],
          max_theta_save = [0, 3 / 2, 2], min_theta_save = [0, 1, 2]\<rparr>"
    by (simp add: frequency_calculation_def bind_err_def nth_err_def np_max_def np_min_def
        py_slice_def Let_def particle_frequency_def column_def survives_def upt_rec
        np_mean_def peak_table_def)
  have i: "1 < n_macroparticles
      \<lparr>n_macroparticles = 3, nTurns = 2,
       theta_save = [[0, 1, 2], [0, 3 / 2, 2]], dE_save = [[0, 0, 0], [0, 1, 0]]\<rparr>"
    by simp
  have "[0, 3 / 2, 2 :: real] ! 1 = 3 / 2"
    by simp
  with frequency_calculation_loss_criterion[OF e i, THEN conjunct1]
  have m: "Max (set (theta_series
        \<lparr>n_macroparticles = 3, nTurns = 2,
         theta_save = [[0, 1, 2], [0, 3 / 2, 2]], dE_save = [[0, 0, 0], [0, 1, 0]]\<rparr>
        None None 1)) = 3 / 2"
    by (simp only: frequency_result.simps)
  have c: "centred [1, 3 / 2] = [- (1 / 4), 1 / 4]"
    by (simp add: centred_def np_mean_def)
  have t: "peak_table [- (1 / 4), 1 / 4] = Inr (1 / 2)"
    by (simp add: peak_table_def)
  have n: "(1 :: nat) < 3"
    by simp
  from e n m c t show ?thesis
    by blast
qed

text \<open>
  The claim as worded fails. With two particles at theta \<open>0\<close> and \<open>1\<close> and one saved
  turn, neither particle's excursion exceeds the initial range \<open>[0, 1]\<close>, yet both are
  excluded: the estimator, which here would report \<open>1\<close>, is not consulted, and both
  frequencies stay at \<open>0\<close>.
\<close>

theorem frequency_calculation_excludes_boundary_particles:
  "frequency_calculation (\<lambda>s. Inr 1)
     \<lparr>n_macroparticles = 2, nTurns = 1, theta_save = [[0, 1]], dE_save = [[0, 0]]\<rparr>
     None None
   = Inr \<lparr>frequency_theta_save = [0, 0], frequency_dE_save = [0, 0],
          max_theta_save = [0, 1], min_theta_save = [0, 1]\<rparr>
   \<and> \<not> exceeds_initial_range 0 0 1 0
   \<and> \<not> exceeds_initial_range 1 1 1 0"
  by (simp add: frequency_calculation_def bind_err_def nth_err_def np_max_def np_min_def
      py_slice_def Let_def particle_frequency_def column_def survives_def upt_rec
      exceeds_initial_range_def)

subsection \<open>Cutting the potential well\<close>

lemma np_interp_length:
  "np_interp x xp fp = Inr r \<Longrightarrow> length xp = length fp \<and> xp \<noteq> [] \<and> length r = length x"
  by (auto simp: np_interp_def split: if_splits)

lemma np_diff_length: "length (np_diff f) = length f - 1"
  by (simp add: np_diff_def)

text \<open>A call of \<open>minmax_location\<close> that returns had two arrays of one length, at least two.\<close>

lemma minmax_location_lengths:
  assumes "minmax_location x f = Inr r"
  shows "length x = length f \<and> 2 \<le> length x"
proof -
  from assms obtain d
    where d: "np_interp x (map (\<lambda>a. a + (x ! 1 - x ! 0) / 2) (butlast x)) (np_diff f) = Inr d"
      and l: "1 < length x"
    by (auto simp: minmax_location_def bind_err_def nth_err_def Let_def
        split: sum.splits if_splits)
  from np_interp_length[OF d] have "length x - 1 = length f - 1"
    by (simp add: np_diff_length)
  with l show ?thesis by arith
qed

lemma cut_zip:
  assumes "length t = length p"
  shows "zip (fst (cut level side t p)) (snd (cut level side t p))
     = filter (\<lambda>(a, b). b < level \<and> side a) (zip t p)"
  using assms
  by (induction t p rule: list_induct2) (auto simp: cut_def select_def Let_def)

lemma cut_lengths:
  assumes "length t = length p"
  shows "length (fst (cut level side t p)) = length (snd (cut level side t p))"
  using assms
  by (induction t p rule: list_induct2) (auto simp: cut_def select_def Let_def)

lemma cut_points:
  assumes "length t = length p" and "cut level side t p = (ts, ps)" and "k < length ts"
  shows "ps ! k < level \<and> side (ts ! k) \<and> (ts ! k, ps ! k) \<in> set (zip t p)"
proof -
  have z: "zip ts ps = filter (\<lambda>(a, b). b < level \<and> side a) (zip t p)"
    using cut_zip[OF assms(1), of level side] assms(2) by simp
  have l: "length ts = length ps"
    using cut_lengths[OF assms(1), of level side] assms(2) by simp
  have "(ts ! k, ps ! k) \<in> set (zip ts ps)"
    using l assms(3) by (metis in_set_zip fst_conv snd_conv)
  then show ?thesis unfolding z by auto
qed

text \<open>Four sampled wells and what the two functions compute on them.\<close>

lemma minmax_parabola:
  "minmax_location [0, 1, 2, 3, 4] [4, 1, 0, 1, 4] = Inr (([5 / 2], []), ([1 / 2], []))"
  by code_simp

lemma minmax_open_right:
  "minmax_location [0, 1, 2, 3, 4, 5] [5, 6, 3, 1, 2, 3]
     = Inr (([7 / 2], [1 / 2]), ([3 / 2], [11 / 2]))"
  by code_simp

lemma minmax_closed_right:
  "minmax_location [0, 1, 2, 3, 4, 5, 6] [0, 4, 6, 4, 0, 4, 9]
     = Inr (([9 / 2], [5 / 2]), ([2], [5]))"
  by code_simp

lemma minmax_monotone:
  "minmax_location [0, 1, 2, 3, 4] [0, 1, 4, 9, 16] = Inr (([], []), ([], []))"
  by code_simp

lemma minmax_double_well:
  "minmax_location [0, 1, 2, 3, 4, 5, 6, 7] [9, 1, 2, 6, 5, 1, 2, 8]
     = Inr (([3 / 2, 11 / 2], [7 / 2]), ([3 / 2, 3 / 2], [11 / 2]))"
  by code_simp

lemma cut_closed_right:
  "potential_well_cut [0, 1, 2, 3, 4, 5, 6] [0, 4, 6, 4, 0, 4, 9]
     = ([], Inr ([3, 4, 5], [4, 0, 4]))"
  by code_simp

lemma cut_open_right:
  "potential_well_cut [0, 1, 2, 3, 4, 5] [5, 6, 3, 1, 2, 3]
     = ([], Inl (RuntimeError not_well_defined))"
  by code_simp

text \<open>
  Whenever at least one minimum and no maximum are detected, the call prints the warning
  and ends in the UnboundLocalError.
\<close>

lemma potential_well_cut_no_maximum:
  assumes "minmax_location t p = Inr ((mins, []), (minvals, maxvals))" and "mins \<noteq> []"
  shows "potential_well_cut t p = ([Printed no_maximum_warning], Inl UnboundLocalError)"
  using assms by (auto simp: potential_well_cut_def Let_def)

text \<open>
  Claim C1 fails on the code at this input. On the parabola sampled at five points,
  \<open>minmax_location\<close> detects one minimum and no maximum; \<open>potential_well_cut\<close> prints
  its warning, which announces that the full potential well will be taken, and then
  raises an UnboundLocalError instead of returning the input arrays.
\<close>

theorem potential_well_cut_no_maximum_raises:
  "minmax_location [0, 1, 2, 3, 4] [4, 1, 0, 1, 4] = Inr (([5 / 2], []), ([1 / 2], []))
   \<and> potential_well_cut [0, 1, 2, 3, 4] [4, 1, 0, 1, 4]
     = ([Printed no_maximum_warning], Inl UnboundLocalError)"
  using potential_well_cut_no_maximum[OF minmax_parabola] minmax_parabola by simp

text \<open>
  Claim C5, as the code has it. When \<open>minmax_location\<close> detects exactly one maximum, at
  time \<open>tmax\<close> with potential \<open>vmax\<close>, every point that \<open>potential_well_cut\<close> returns is
  a point of the input, lies strictly below \<open>vmax\<close>, and lies on the side of \<open>tmax\<close>
  where the first minimum is (after \<open>tmax\<close> when the minimum is after it, before \<open>tmax\<close>
  otherwise). The call fails with a RuntimeError when the two ends of the array are in
  the wrong order: the last potential below the first when the kept side is the right
  one, above the first when it is the left one. Whether the well still descends at the
  edge of the kept side is not what is tested.
\<close>

theorem potential_well_cut_one_maximum:
  assumes "minmax_location t p = Inr ((mins, [tmax]), (minvals, [vmax]))"
  shows "(\<forall>ts ps k. snd (potential_well_cut t p) = Inr (ts, ps) \<and> k < length ts \<longrightarrow>
            length ts = length ps \<and> ps ! k < vmax
            \<and> (if hd mins > tmax then ts ! k > tmax else ts ! k < tmax)
            \<and> (ts ! k, ps ! k) \<in> set (zip t p))
       \<and> ((if hd mins > tmax then last p < hd p else last p > hd p) \<longrightarrow>
            (\<exists>msg. potential_well_cut t p = ([], Inl (RuntimeError msg))))"
proof -
  have len: "length t = length p"
    using minmax_location_lengths[OF assms] by simp
  have a: "length ts = length ps \<and> ps ! k < vmax
            \<and> (if hd mins > tmax then ts ! k > tmax else ts ! k < tmax)
            \<and> (ts ! k, ps ! k) \<in> set (zip t p)"
    if r: "snd (potential_well_cut t p) = Inr (ts, ps)" and k: "k < length ts" for ts ps k
  proof (cases "hd mins > tmax")
    case True
    with r have c: "cut vmax (\<lambda>x. x > tmax) t p = (ts, ps)"
      by (auto simp: potential_well_cut_def assms Let_def split: if_splits)
    from cut_points[OF len c k] cut_lengths[OF len, of vmax "\<lambda>x. x > tmax"] c True
    show ?thesis by simp
  next
    case False
    with r have c: "cut vmax (\<lambda>x. x < tmax) t p = (ts, ps)"
      by (auto simp: potential_well_cut_def assms Let_def split: if_splits)
    from cut_points[OF len c k] cut_lengths[OF len, of vmax "\<lambda>x. x < tmax"] c False
    show ?thesis by simp
  qed
  have b: "\<exists>msg. potential_well_cut t p = ([], Inl (RuntimeError msg))"
    if "if hd mins > tmax then last p < hd p else last p > hd p"
    using that by (auto simp: potential_well_cut_def assms Let_def split: if_splits)
  from a b show ?thesis by blast
qed

theorem potential_well_cut_one_maximum_witness:
  "minmax_location [0, 1, 2, 3, 4, 5, 6] [0, 4, 6, 4, 0, 4, 9]
     = Inr (([9 / 2], [5 / 2]), ([2], [5]))
   \<and> snd (potential_well_cut [0, 1, 2, 3, 4, 5, 6] [0, 4, 6, 4, 0, 4, 9])
     = Inr ([3, 4, 5], [4, 0, 4])
   \<and> [4, 0, 4 :: real] ! 1 < 5 \<and> 5 / 2 < [3, 4, 5 :: real] ! 1
   \<and> minmax_location [0, 1, 2, 3, 4, 5] [5, 6, 3, 1, 2, 3]
     = Inr (([7 / 2], [1 / 2]), ([3 / 2], [11 / 2]))
   \<and> last [5, 6, 3, 1, 2, 3 :: real] < hd [5, 6, 3, 1, 2, 3]
   \<and> (\<exists>msg. potential_well_cut [0, 1, 2, 3, 4, 5] [5, 6, 3, 1, 2, 3]
         = ([], Inl (RuntimeError msg)))"
proof -
  have c: "snd (potential_well_cut [0, 1, 2, 3, 4, 5, 6] [0, 4, 6, 4, 0, 4, 9])
      = Inr ([3, 4, 5], [4, 0, 4])"
    by (simp add: cut_closed_right)
  have k: "(1 :: nat) < length [3, 4, 5 :: real]"
    by simp
  from potential_well_cut_one_maximum[OF minmax_closed_right, THEN conjunct1, rule_format,
      of "[3, 4, 5]" "[4, 0, 4]" 1] c k
  have p: "[4, 0, 4 :: real] ! 1 < 5 \<and> 5 / 2 < [3, 4, 5 :: real] ! 1"
    by simp
  have "if hd [7 / 2 :: real] > 1 / 2
        then last [5, 6, 3, 1, 2, 3 :: real] < hd [5, 6, 3, 1, 2, 3]
        else last [5, 6, 3, 1, 2, 3 :: real] > hd [5, 6, 3, 1, 2, 3]"
    by simp
  with potential_well_cut_one_maximum[OF minmax_open_right, THEN conjunct2]
  have e: "\<exists>msg. potential_well_cut [0, 1, 2, 3, 4, 5] [5, 6, 3, 1, 2, 3]
         = ([], Inl (RuntimeError msg))"
    by blast
  have l: "last [5, 6, 3, 1, 2, 3 :: real] < hd [5, 6, 3, 1, 2, 3]"
    by simp
  from minmax_closed_right c p minmax_open_right l e show ?thesis
    by blast
qed

text \<open>
  The claim as worded fails. On this well one maximum (at \<open>3 / 2\<close>) and one minimum (at
  \<open>7 / 2\<close>) are detected and the right side is kept. The well is still descending at the
  right edge, from \<open>2\<close> to \<open>3 / 2\<close>, but the last potential is not below the first, and
  the call returns its cut instead of failing.
\<close>

theorem potential_well_cut_descending_edge_returns:
  "minmax_location [0, 1, 2, 3, 4, 5] [1, 6, 3, 1, 2, 3 / 2]
     = Inr (([7 / 2], [3 / 2]), ([3 / 2], [9 / 2]))
   \<and> [1, 6, 3, 1, 2, 3 / 2 :: real] ! 5 < [1, 6, 3, 1, 2, 3 / 2] ! 4
   \<and> potential_well_cut [0, 1, 2, 3, 4, 5] [1, 6, 3, 1, 2, 3 / 2]
     = ([], Inr ([2, 3, 4, 5], [3, 1, 2, 3 / 2]))"
proof -
  have a: "minmax_location [0, 1, 2, 3, 4, 5] [1, 6, 3, 1, 2, 3 / 2]
     = Inr (([7 / 2], [3 / 2]), ([3 / 2], [9 / 2]))"
    by code_simp
  have b: "potential_well_cut [0, 1, 2, 3, 4, 5] [1, 6, 3, 1, 2, 3 / 2]
     = ([], Inr ([2, 3, 4, 5], [3, 1, 2, 3 / 2]))"
    by code_simp
  have c: "[1, 6, 3, 1, 2, 3 / 2 :: real] ! 5 < [1, 6, 3, 1, 2, 3 / 2] ! 4"
    by simp
  from a c b show ?thesis by blast
qed

text \<open>
  Claim C6, as the code has it. \<open>potential_well_cut\<close> aborts with a RuntimeError, and
  returns no cut, when no minimum is detected and when more minima than maxima are
  detected with exactly one maximum. The two configurations are not the only ones in
  which it aborts.
\<close>

theorem potential_well_cut_fatal:
  assumes "minmax_location t p = Inr ((mins, maxs), (minvals, maxvals))"
  shows "(length mins = 0 \<longrightarrow> potential_well_cut t p = ([], Inl (RuntimeError no_minima)))
       \<and> (length mins > length maxs \<and> length maxs = 1 \<longrightarrow>
            potential_well_cut t p = ([], Inl (RuntimeError more_minima)))"
  by (auto simp: potential_well_cut_def assms Let_def)

theorem potential_well_cut_fatal_witness:
  "minmax_location [0, 1, 2, 3, 4] [0, 1, 4, 9, 16] = Inr (([], []), ([], []))
   \<and> potential_well_cut [0, 1, 2, 3, 4] [0, 1, 4, 9, 16] = ([], Inl (RuntimeError no_minima))
   \<and> minmax_location [0, 1, 2, 3, 4, 5, 6, 7] [9, 1, 2, 6, 5, 1, 2, 8]
     = Inr (([3 / 2, 11 / 2], [7 / 2]), ([3 / 2, 3 / 2], [11 / 2]))
   \<and> potential_well_cut [0, 1, 2, 3, 4, 5, 6, 7] [9, 1, 2, 6, 5, 1, 2, 8]
     = ([], Inl (RuntimeError more_minima))"
proof -
  from potential_well_cut_fatal[OF minmax_monotone, THEN conjunct1]
  have a: "potential_well_cut [0, 1, 2, 3, 4] [0, 1, 4, 9, 16]
      = ([], Inl (RuntimeError no_minima))"
    by simp
  from potential_well_cut_fatal[OF minmax_double_well, THEN conjunct2]
  have b: "potential_well_cut [0, 1, 2, 3, 4, 5, 6, 7] [9, 1, 2, 6, 5, 1, 2, 8]
      = ([], Inl (RuntimeError more_minima))"
    by simp
  from minmax_monotone a minmax_double_well b show ?thesis
    by blast
qed

text \<open>
  The claim as worded fails: on this well one minimum and one maximum are detected, so
  that neither of the two configurations holds, and the call aborts with the
  RuntimeError of the boundary check.
\<close>

theorem potential_well_cut_third_abort:
  "minmax_location [0, 1, 2, 3, 4, 5] [5, 6, 3, 1, 2, 3]
     = Inr (([7 / 2], [1 / 2]), ([3 / 2], [11 / 2]))
   \<and> potential_well_cut [0, 1, 2, 3, 4, 5] [5, 6, 3, 1, 2, 3]
     = ([], Inl (RuntimeError not_well_defined))"
  using minmax_open_right cut_open_right by blast

end
